theory Spec2Isabelle
  imports Complex_Main "HOL-Library.Word"
begin

section \<open>JavaScript strings\<close>

text \<open>
  A JavaScript string is a sequence of 16-bit code units. Literals of the source are
  ASCII and are written through \<open>utf16\<close>.
\<close>

type_synonym code_unit = "16 word"
type_synonym js_string = "code_unit list"

definition utf16 :: "string \<Rightarrow> js_string" where
  "utf16 s = map of_char s"

text \<open>
  The regular expression class \<open>\s\<close>: the WhiteSpace and LineTerminator code points of
  ECMAScript (TAB, LF, VT, FF, CR, SP, NBSP, the Unicode space separators, LS, PS and
  the byte order mark).
\<close>

definition isWhiteSpace :: "code_unit \<Rightarrow> bool" where
  "isWhiteSpace c \<longleftrightarrow>
     c = 0x0009 \<or> c = 0x000A \<or> c = 0x000B \<or> c = 0x000C \<or> c = 0x000D \<or> c = 0x0020 \<or>
     c = 0x00A0 \<or> c = 0x1680 \<or> (0x2000 \<le> c \<and> c \<le> 0x200A) \<or> c = 0x2028 \<or>
     c = 0x2029 \<or> c = 0x202F \<or> c = 0x205F \<or> c = 0x3000 \<or> c = 0xFEFF"

text \<open>
  \<open>s.replace(/\s/g, rep)\<close>: the global flag scans the string from left to right and
  substitutes every match of the one-character class.
\<close>

fun replace_ws :: "js_string \<Rightarrow> js_string \<Rightarrow> js_string" where
  "replace_ws rep [] = []"
| "replace_ws rep (c # cs) =
     (if isWhiteSpace c then rep @ replace_ws rep cs else c # replace_ws rep cs)"

section \<open>Numbers\<close>

text \<open>
  A JavaScript number is an IEEE-754 binary64 value. A finite double is represented by
  the rational it denotes (the two zeros are not told apart); the other values are NaN
  and the two infinities. Every arithmetic operation computes the exact result and
  rounds it to the nearest double, ties to the even significand.
\<close>

datatype js_number = NaN | PosInfinity | NegInfinity | Finite rat

text \<open>\<open>floor_log2 n\<close> is the position of the leading bit of \<open>n\<close>, for \<open>n\<close> at least 1.\<close>

function floor_log2 :: "int \<Rightarrow> int" where
  "floor_log2 n = (if n < 2 then 0 else 1 + floor_log2 (n div 2))"
  by pat_completeness auto
termination
  by (relation "measure nat") auto

declare floor_log2.simps [simp del]

definition pow2 :: "int \<Rightarrow> rat" where
  "pow2 k = (if 0 \<le> k then 2 ^ nat k else 1 / 2 ^ nat (- k))"

text \<open>The exponent \<open>e\<close> with \<open>2^e \<le> a < 2^(e+1)\<close>, for a positive rational \<open>a\<close>.\<close>

definition binade :: "rat \<Rightarrow> int" where
  "binade a =
     (if 1 \<le> a then floor_log2 \<lfloor>a\<rfloor>
      else (let j = floor_log2 \<lfloor>1 / a\<rfloor> in if 1 / a = pow2 j then - j else - j - 1))"

definition round_half_even :: "rat \<Rightarrow> int" where
  "round_half_even r =
     (let f = \<lfloor>r\<rfloor>; d = r - of_int f
      in if d < 1 / 2 then f else if 1 / 2 < d then f + 1 else if even f then f else f + 1)"

text \<open>
  Rounding to binary64: 53 significant bits, exponents from -1022 (below which the
  spacing stays at \<open>2^-1074\<close>) to 1023 (a result that reaches \<open>2^1024\<close> is an infinity).
\<close>

definition round_double :: "rat \<Rightarrow> js_number" where
  "round_double x =
     (if x = 0 then Finite 0
      else (let a = \<bar>x\<bar>;
                ulp = pow2 (max (binade a) (- 1022) - 52);
                y = of_int (round_half_even (a / ulp)) * ulp
            in if y = 0 then Finite 0
               else if 1024 \<le> binade y then (if 0 < x then PosInfinity else NegInfinity)
               else Finite (if 0 < x then y else - y)))"

text \<open>The operators \<open>+\<close> and \<open>*\<close> on numbers.\<close>

fun js_add :: "js_number \<Rightarrow> js_number \<Rightarrow> js_number" where
  "js_add NaN y = NaN"
| "js_add x NaN = NaN"
| "js_add (Finite a) (Finite b) = round_double (a + b)"
| "js_add (Finite a) y = y"
| "js_add x (Finite b) = x"
| "js_add x y = (if x = y then x else NaN)"

fun js_mul :: "js_number \<Rightarrow> js_number \<Rightarrow> js_number" where
  "js_mul NaN y = NaN"
| "js_mul x NaN = NaN"
| "js_mul (Finite a) (Finite b) = round_double (a * b)"
| "js_mul (Finite a) y =
     (if a = 0 then NaN else if (0 < a) = (y = PosInfinity) then PosInfinity else NegInfinity)"
| "js_mul x (Finite b) =
     (if b = 0 then NaN else if (0 < b) = (x = PosInfinity) then PosInfinity else NegInfinity)"
| "js_mul x y = (if x = y then PosInfinity else NegInfinity)"

text \<open>A quantity, kept as an integer in the cart entries, as the number it is.\<close>

definition number_of_int :: "int \<Rightarrow> js_number" where
  "number_of_int q = round_double (of_int q)"

section \<open>Data model\<close>

text \<open>
  The object literals of \<open>toggleFavorite\<close> (\<open>{ id, name, price, image }\<close>) and of
  \<open>addItemToCart\<close> (the same fields followed by \<open>quantity\<close> and \<open>variant\<close>).
  A price is a number, as \<open>parseFloat\<close> yields it; a quantity is an integer. A \<open>variant\<close>
  is \<open>null\<close> (\<open>None\<close>) or a string.
\<close>

record favorite_item =
  item_id :: js_string
  item_name :: js_string
  item_price :: js_number
  item_image :: js_string

record cart_item = favorite_item +
  item_quantity :: int
  item_variant :: "js_string option"

text \<open>The value of a call: a function body without \<open>return\<close> yields \<open>undefined\<close>.\<close>

datatype js_value = Undefined | Boolean bool

section \<open>Array primitives\<close>

text \<open>
  \<open>Array.prototype.find\<close> is \<^const>\<open>List.find\<close>: the first element satisfying the
  callback, or \<open>undefined\<close> (\<open>None\<close>). The element is returned by reference, so an
  assignment to one of its fields is seen through the array: \<open>update_found\<close> applies the
  assignment to the first element that satisfies the callback.
\<close>

fun update_found :: "('a \<Rightarrow> bool) \<Rightarrow> ('a \<Rightarrow> 'a) \<Rightarrow> 'a list \<Rightarrow> 'a list" where
  "update_found P f [] = []"
| "update_found P f (x # xs) = (if P x then f x # xs else x # update_found P f xs)"

text \<open>\<open>Array.prototype.findIndex\<close>: the first index whose element satisfies the callback, or -1.\<close>

fun findIndex :: "('a \<Rightarrow> bool) \<Rightarrow> 'a list \<Rightarrow> int" where
  "findIndex P [] = - 1"
| "findIndex P (x # xs) =
     (if P x then 0 else (let k = findIndex P xs in if k = - 1 then - 1 else k + 1))"

text \<open>
  \<open>Array.prototype.splice(start, deleteCount)\<close> with no inserted items; a negative
  \<open>start\<close> counts from the end and both arguments are clamped to the array.
\<close>

definition array_splice :: "int \<Rightarrow> int \<Rightarrow> 'a list \<Rightarrow> 'a list" where
  "array_splice start deleteCount xs =
     (let len = int (length xs);
          actualStart = (if start < 0 then max (len + start) 0 else min start len);
          actualDeleteCount = min (max deleteCount 0) (len - actualStart)
      in take (nat actualStart) xs @ drop (nat (actualStart + actualDeleteCount)) xs)"

text \<open>What splicing one element at the found index amounts to (used in the proofs only).\<close>

fun remove_first :: "('a \<Rightarrow> bool) \<Rightarrow> 'a list \<Rightarrow> 'a list" where
  "remove_first P [] = []"
| "remove_first P (x # xs) = (if P x then xs else x # remove_first P xs)"

section \<open>Cart\<close>

text \<open>
  The closure variable \<open>cart\<close> is passed to each operation and returned updated.
  \<open>updateCart\<close>, called at the end of both mutators, reads \<open>cart\<close> to render it and to
  write it to \<open>localStorage\<close>; it does not assign to it.
\<close>

text \<open>The condition \<open>variant ? ... : ...\<close>: \<open>null\<close> and the empty string are falsy.\<close>

fun truthy_variant :: "js_string option \<Rightarrow> bool" where
  "truthy_variant None = False"
| "truthy_variant (Some v) = (v \<noteq> [])"

definition cartItemId :: "js_string \<Rightarrow> js_string option \<Rightarrow> js_string" where
  "cartItemId id' variant =
     (if truthy_variant variant
      then id' @ utf16 ''-'' @ replace_ws (utf16 ''-'') (the variant)
      else id')"

definition addItemToCart ::
  "js_string \<Rightarrow> js_string \<Rightarrow> js_number \<Rightarrow> js_string \<Rightarrow> js_string option \<Rightarrow>
   cart_item list \<Rightarrow> cart_item list" where
  "addItemToCart id' name price image' variant cart =
     (let key = cartItemId id' variant in
      case find (\<lambda>item. item_id item = key) cart of
        Some existingItem \<Rightarrow>
          update_found (\<lambda>item. item_id item = key)
            (\<lambda>item. item\<lparr>item_quantity := item_quantity item + 1\<rparr>) cart
      | None \<Rightarrow>
          cart @ [\<lparr>item_id = key, item_name = name, item_price = price, item_image = image',
                   item_quantity = 1, item_variant = variant\<rparr>])"

definition updateItemQuantity :: "js_string \<Rightarrow> int \<Rightarrow> cart_item list \<Rightarrow> cart_item list" where
  "updateItemQuantity id' change cart =
     (case find (\<lambda>item. item_id item = id') cart of
        None \<Rightarrow> cart
      | Some item \<Rightarrow>
          (let cart1 = update_found (\<lambda>item. item_id item = id')
                         (\<lambda>item. item\<lparr>item_quantity := item_quantity item + change\<rparr>) cart
           in if item_quantity item + change \<le> 0
              then filter (\<lambda>cartItem. item_id cartItem \<noteq> id') cart1
              else cart1))"

text \<open>
  The constant \<open>total\<close> of \<open>renderSubtotal\<close>: \<open>cart.reduce\<close> from 0, left to right, each
  step one double multiplication and one double addition. (The function computes it only
  when the element \<open>cart-total\<close> is on the page, and then shows it with two decimals.)
\<close>

definition total :: "cart_item list \<Rightarrow> js_number" where
  "total cart =
     foldl (\<lambda>sum' item. js_add sum' (js_mul (item_price item) (number_of_int (item_quantity item))))
       (Finite 0) cart"

text \<open>
  What the specification compares \<open>total\<close> with: the exact sum over the entries of price
  times quantity, which exists when every price is finite.
\<close>

fun exact_subtotal :: "cart_item list \<Rightarrow> rat option" where
  "exact_subtotal [] = Some 0"
| "exact_subtotal (item # cart) =
     (case (item_price item, exact_subtotal cart) of
        (Finite p, Some s) \<Rightarrow> Some (p * of_int (item_quantity item) + s)
      | _ \<Rightarrow> None)"

text \<open>
  A rational is representable when rounding leaves it alone. \<open>exact_steps s cart\<close> says
  that the accumulation over \<open>cart\<close>, started at the exact value \<open>s\<close>, never rounds: each
  quantity, each product and each partial sum is representable.
\<close>

definition representable :: "rat \<Rightarrow> bool" where
  "representable x \<longleftrightarrow> round_double x = Finite x"

fun exact_steps :: "rat \<Rightarrow> cart_item list \<Rightarrow> bool" where
  "exact_steps s [] = True"
| "exact_steps s (item # cart) =
     (case item_price item of
        Finite p \<Rightarrow>
          representable (of_int (item_quantity item)) \<and>
          representable (p * of_int (item_quantity item)) \<and>
          representable (s + p * of_int (item_quantity item)) \<and>
          exact_steps (s + p * of_int (item_quantity item)) cart
      | _ \<Rightarrow> False)"

text \<open>Sequences of calls, as the event router issues them one click after another.\<close>

type_synonym add_call = "js_string \<times> js_string \<times> js_number \<times> js_string \<times> js_string option"

fun addItems :: "add_call list \<Rightarrow> cart_item list \<Rightarrow> cart_item list" where
  "addItems [] cart = cart"
| "addItems ((id', name, price, image', variant) # calls) cart =
     addItems calls (addItemToCart id' name price image' variant cart)"

fun updateQuantities :: "(js_string \<times> int) list \<Rightarrow> cart_item list \<Rightarrow> cart_item list" where
  "updateQuantities [] cart = cart"
| "updateQuantities ((id', change) # calls) cart =
     updateQuantities calls (updateItemQuantity id' change cart)"

section \<open>Favorites\<close>

text \<open>
  \<open>toggleFavorite\<close> has no \<open>return\<close> statement: the call evaluates to \<open>undefined\<close>.
  The second component is the closure variable \<open>favorites\<close> after the call.
\<close>

definition toggleFavorite ::
  "js_string \<Rightarrow> js_string \<Rightarrow> js_number \<Rightarrow> js_string \<Rightarrow> favorite_item list \<Rightarrow>
   js_value \<times> favorite_item list" where
  "toggleFavorite id' name price image' favorites =
     (let existingIndex = findIndex (\<lambda>item. item_id item = id') favorites
      in (Undefined,
          if existingIndex > - 1
          then array_splice existingIndex 1 favorites
          else favorites @ [\<lparr>item_id = id', item_name = name, item_price = price,
                              item_image = image'\<rparr>]))"

text \<open>The test of \<open>updateFavoriteIconState\<close>: \<open>favorites.some(item => item.id === productId)\<close>.\<close>

definition isFavorited :: "js_string \<Rightarrow> favorite_item list \<Rightarrow> bool" where
  "isFavorited productId favorites = list_ex (\<lambda>item. item_id item = productId) favorites"

section \<open>Persistent store\<close>

text \<open>
  \<open>localStorage\<close> maps keys to strings; \<open>getItem\<close> of an absent key is \<open>null\<close> (\<open>None\<close>).
  The two collections are initialised with \<open>JSON.parse(localStorage.getItem(key)) || []\<close>,
  so the value loaded is whatever JSON value the stored text denotes.
\<close>

type_synonym storage = "js_string \<rightharpoonup> js_string"

datatype json =
    JNull
  | JBoolean bool
  | JNumber js_number
  | JString js_string
  | JArray "json list"
  | JObject "(js_string \<times> json) list"

datatype js_error = SyntaxError

subsection \<open>The JSON grammar of \<open>JSON.parse\<close>\<close>

text \<open>
  \<open>JSON.parse\<close> is a primitive of the platform. It is modelled by a scanner that reads the
  text one code unit at a time and a push-down recogniser over the tokens, following the
  JSON grammar of ECMA-404: the four whitespace characters, the six structural
  characters, strings with their escapes, numbers and the three literal names. The value
  of a number is rounded to the nearest double; the members of an object are kept in the
  order of the text.
\<close>

datatype token = LBrace | RBrace | LBracket | RBracket | Colon | Comma | Scalar json

definition is_json_ws :: "code_unit \<Rightarrow> bool" where
  "is_json_ws c \<longleftrightarrow> c = 0x20 \<or> c = 0x09 \<or> c = 0x0A \<or> c = 0x0D"

definition is_digit :: "code_unit \<Rightarrow> bool" where
  "is_digit c \<longleftrightarrow> 0x30 \<le> c \<and> c \<le> 0x39"

definition is_number_char :: "code_unit \<Rightarrow> bool" where
  "is_number_char c \<longleftrightarrow> is_digit c \<or> c = 0x2B \<or> c = 0x2D \<or> c = 0x2E \<or> c = 0x45 \<or> c = 0x65"

definition is_letter :: "code_unit \<Rightarrow> bool" where
  "is_letter c \<longleftrightarrow> 0x61 \<le> c \<and> c \<le> 0x7A"

definition hex_value :: "code_unit \<Rightarrow> nat option" where
  "hex_value c =
     (if 0x30 \<le> c \<and> c \<le> 0x39 then Some (unat (c - 0x30))
      else if 0x41 \<le> c \<and> c \<le> 0x46 then Some (unat (c - 0x41) + 10)
      else if 0x61 \<le> c \<and> c \<le> 0x66 then Some (unat (c - 0x61) + 10)
      else None)"

text \<open>The character after a backslash: \<open>"\<close>, \<open>\\<close>, \<open>/\<close>, \<open>b\<close>, \<open>f\<close>, \<open>n\<close>, \<open>r\<close>, \<open>t\<close>.\<close>

definition escape_char :: "code_unit \<Rightarrow> code_unit option" where
  "escape_char c =
     (if c = 0x22 \<or> c = 0x5C \<or> c = 0x2F then Some c
      else if c = 0x62 then Some 0x08
      else if c = 0x66 then Some 0x0C
      else if c = 0x6E then Some 0x0A
      else if c = 0x72 then Some 0x0D
      else if c = 0x74 then Some 0x09
      else None)"

definition digits_value :: "js_string \<Rightarrow> nat" where
  "digits_value ds = foldl (\<lambda>a d. 10 * a + unat (d - 0x30)) 0 ds"

definition starts_with :: "(code_unit \<Rightarrow> bool) \<Rightarrow> js_string \<Rightarrow> bool" where
  "starts_with P s = (case s of [] \<Rightarrow> False | c # _ \<Rightarrow> P c)"

text \<open>
  A number: an optional minus, an integer part without a leading zero (unless it is the
  single digit 0), an optional fraction and an optional exponent; nothing may follow.
  The result is the exact decimal value.
\<close>

definition number_value :: "js_string \<Rightarrow> rat option" where
  "number_value s =
     (let neg = starts_with (\<lambda>c. c = 0x2D) s;
          s1 = (if neg then tl s else s);
          ip = takeWhile is_digit s1;
          s2 = dropWhile is_digit s1;
          has_frac = starts_with (\<lambda>c. c = 0x2E) s2;
          fp = (if has_frac then takeWhile is_digit (tl s2) else []);
          s3 = (if has_frac then dropWhile is_digit (tl s2) else s2);
          has_exp = starts_with (\<lambda>c. c = 0x45 \<or> c = 0x65) s3;
          s4 = (if has_exp then tl s3 else s3);
          eneg = (has_exp \<and> starts_with (\<lambda>c. c = 0x2D) s4);
          s5 = (if has_exp \<and> starts_with (\<lambda>c. c = 0x2B \<or> c = 0x2D) s4 then tl s4 else s4);
          ep = (if has_exp then takeWhile is_digit s5 else []);
          s6 = (if has_exp then dropWhile is_digit s5 else s5)
      in if ip = [] \<or> (1 < length ip \<and> starts_with (\<lambda>c. c = 0x30) ip) \<or>
            (has_frac \<and> fp = []) \<or> (has_exp \<and> ep = []) \<or> s6 \<noteq> []
         then None
         else Some ((if neg then - 1 else 1)
                    * (of_nat (digits_value ip) + of_nat (digits_value fp) / 10 ^ length fp)
                    * (if eneg then 1 / 10 ^ digits_value ep else 10 ^ digits_value ep)))"

definition word_value :: "js_string \<Rightarrow> json option" where
  "word_value s =
     (if s = utf16 ''null'' then Some JNull
      else if s = utf16 ''true'' then Some (JBoolean True)
      else if s = utf16 ''false'' then Some (JBoolean False)
      else None)"

text \<open>
  The scanner. In a string, an escape or a \<open>\u\<close> sequence the characters read so far are
  kept in reverse; a number or a literal name ends at the first character that cannot
  continue it, and that character is then read as the start of the next token.
\<close>

datatype scan_mode =
    Idle
  | InString js_string
  | Escape js_string
  | Hex js_string "nat list"
  | InNumber js_string
  | InWord js_string

definition idle_step :: "code_unit \<Rightarrow> (scan_mode \<times> token list) option" where
  "idle_step c =
     (if is_json_ws c then Some (Idle, [])
      else if c = 0x7B then Some (Idle, [LBrace])
      else if c = 0x7D then Some (Idle, [RBrace])
      else if c = 0x5B then Some (Idle, [LBracket])
      else if c = 0x5D then Some (Idle, [RBracket])
      else if c = 0x3A then Some (Idle, [Colon])
      else if c = 0x2C then Some (Idle, [Comma])
      else if c = 0x22 then Some (InString [], [])
      else if c = 0x2D \<or> is_digit c then Some (InNumber [c], [])
      else if is_letter c then Some (InWord [c], [])
      else None)"

definition after_token :: "json option \<Rightarrow> code_unit \<Rightarrow> (scan_mode \<times> token list) option" where
  "after_token v c =
     (case v of
        None \<Rightarrow> None
      | Some x \<Rightarrow> (case idle_step c of None \<Rightarrow> None | Some (m, ts) \<Rightarrow> Some (m, Scalar x # ts)))"

fun scan_step :: "scan_mode \<Rightarrow> code_unit \<Rightarrow> (scan_mode \<times> token list) option" where
  "scan_step Idle c = idle_step c"
| "scan_step (InString acc) c =
     (if c = 0x22 then Some (Idle, [Scalar (JString (rev acc))])
      else if c = 0x5C then Some (Escape acc, [])
      else if c < 0x20 then None
      else Some (InString (c # acc), []))"
| "scan_step (Escape acc) c =
     (if c = 0x75 then Some (Hex acc [], [])
      else (case escape_char c of None \<Rightarrow> None | Some d \<Rightarrow> Some (InString (d # acc), [])))"
| "scan_step (Hex acc ds) c =
     (case hex_value c of
        None \<Rightarrow> None
      | Some h \<Rightarrow>
          if length ds = 3
          then Some (InString (of_nat (foldl (\<lambda>a d. 16 * a + d) 0 (ds @ [h])) # acc), [])
          else Some (Hex acc (ds @ [h]), []))"
| "scan_step (InNumber acc) c =
     (if is_number_char c then Some (InNumber (c # acc), [])
      else after_token (map_option (\<lambda>x. JNumber (round_double x)) (number_value (rev acc))) c)"
| "scan_step (InWord acc) c =
     (if is_letter c then Some (InWord (c # acc), [])
      else after_token (word_value (rev acc)) c)"

fun scan_end :: "scan_mode \<Rightarrow> token list option" where
  "scan_end Idle = Some []"
| "scan_end (InNumber acc) =
     map_option (\<lambda>x. [Scalar (JNumber (round_double x))]) (number_value (rev acc))"
| "scan_end (InWord acc) = map_option (\<lambda>v. [Scalar v]) (word_value (rev acc))"
| "scan_end (InString acc) = None"
| "scan_end (Escape acc) = None"
| "scan_end (Hex acc ds) = None"

fun scan :: "scan_mode \<Rightarrow> js_string \<Rightarrow> token list option" where
  "scan m [] = scan_end m"
| "scan m (c # cs) =
     (case scan_step m c of
        None \<Rightarrow> None
      | Some (m', ts) \<Rightarrow> map_option (\<lambda>rest. ts @ rest) (scan m' cs))"

text \<open>
  The recogniser. The stack holds the containers that are open, innermost first, each
  with its elements or members in reverse; a \<open>MemberFrame\<close> is an object whose next value
  belongs to the key it holds.
\<close>

datatype frame =
    ArrayFrame "json list"
  | ObjectFrame "(js_string \<times> json) list"
  | MemberFrame "(js_string \<times> json) list" js_string

datatype expect = Value | ValueOrClose | KeyOrClose | Key | ColonSep | CommaOrClose | End json

definition deliver :: "json \<Rightarrow> frame list \<Rightarrow> (expect \<times> frame list) option" where
  "deliver v stack =
     (case stack of
        [] \<Rightarrow> Some (End v, [])
      | ArrayFrame acc # st \<Rightarrow> Some (CommaOrClose, ArrayFrame (v # acc) # st)
      | MemberFrame acc k # st \<Rightarrow> Some (CommaOrClose, ObjectFrame ((k, v) # acc) # st)
      | ObjectFrame acc # st \<Rightarrow> None)"

definition value_start :: "frame list \<Rightarrow> token \<Rightarrow> (expect \<times> frame list) option" where
  "value_start stack t =
     (case t of
        Scalar v \<Rightarrow> deliver v stack
      | LBracket \<Rightarrow> Some (ValueOrClose, ArrayFrame [] # stack)
      | LBrace \<Rightarrow> Some (KeyOrClose, ObjectFrame [] # stack)
      | _ \<Rightarrow> None)"

definition key_start :: "frame list \<Rightarrow> token \<Rightarrow> (expect \<times> frame list) option" where
  "key_start stack t =
     (case t of
        Scalar (JString k) \<Rightarrow>
          (case stack of ObjectFrame acc # st \<Rightarrow> Some (ColonSep, MemberFrame acc k # st) | _ \<Rightarrow> None)
      | _ \<Rightarrow> None)"

definition close_array :: "frame list \<Rightarrow> (expect \<times> frame list) option" where
  "close_array stack =
     (case stack of ArrayFrame acc # st \<Rightarrow> deliver (JArray (rev acc)) st | _ \<Rightarrow> None)"

definition close_object :: "frame list \<Rightarrow> (expect \<times> frame list) option" where
  "close_object stack =
     (case stack of ObjectFrame acc # st \<Rightarrow> deliver (JObject (rev acc)) st | _ \<Rightarrow> None)"

fun parse_step :: "expect \<Rightarrow> frame list \<Rightarrow> token \<Rightarrow> (expect \<times> frame list) option" where
  "parse_step Value stack t = value_start stack t"
| "parse_step ValueOrClose stack t =
     (if t = RBracket then close_array stack else value_start stack t)"
| "parse_step KeyOrClose stack t =
     (if t = RBrace then close_object stack else key_start stack t)"
| "parse_step Key stack t = key_start stack t"
| "parse_step ColonSep stack t = (if t = Colon then Some (Value, stack) else None)"
| "parse_step CommaOrClose stack t =
     (case t of
        Comma \<Rightarrow>
          (case stack of
             ArrayFrame acc # st \<Rightarrow> Some (Value, stack)
           | ObjectFrame acc # st \<Rightarrow> Some (Key, stack)
           | _ \<Rightarrow> None)
      | RBracket \<Rightarrow> close_array stack
      | RBrace \<Rightarrow> close_object stack
      | _ \<Rightarrow> None)"
| "parse_step (End v) stack t = None"

fun parse_tokens :: "expect \<Rightarrow> frame list \<Rightarrow> token list \<Rightarrow> json option" where
  "parse_tokens e stack [] = (case e of End v \<Rightarrow> Some v | _ \<Rightarrow> None)"
| "parse_tokens e stack (t # ts) =
     (case parse_step e stack t of
        None \<Rightarrow> None
      | Some (e', stack') \<Rightarrow> parse_tokens e' stack' ts)"

text \<open>
  \<open>JSON.parse(text)\<close> converts its argument to a string first (\<open>null\<close> becomes the text
  \<open>null\<close>) and throws \<open>SyntaxError\<close> when the string is not a JSON text.
\<close>

definition JSON_parse :: "js_string option \<Rightarrow> js_error + json" where
  "JSON_parse text =
     (case scan Idle (case text of None \<Rightarrow> utf16 ''null'' | Some s \<Rightarrow> s) of
        None \<Rightarrow> Inl SyntaxError
      | Some ts \<Rightarrow>
          (case parse_tokens Value [] ts of None \<Rightarrow> Inl SyntaxError | Some v \<Rightarrow> Inr v))"

text \<open>The truthiness tested by \<open>||\<close>.\<close>

fun ToBoolean :: "json \<Rightarrow> bool" where
  "ToBoolean JNull = False"
| "ToBoolean (JBoolean b) = b"
| "ToBoolean (JNumber n) = (n \<noteq> Finite 0 \<and> n \<noteq> NaN)"
| "ToBoolean (JString s) = (s \<noteq> [])"
| "ToBoolean (JArray xs) = True"
| "ToBoolean (JObject ms) = True"

subsection \<open>Loading the collections\<close>

text \<open>
  The expression \<open>JSON.parse(localStorage.getItem(key)) || []\<close> of lines 51 and 53. There
  is no \<open>try\<close> around it: an exception of \<open>JSON.parse\<close> leaves the expression, and the
  handler, at once.
\<close>

definition load :: "storage \<Rightarrow> js_string \<Rightarrow> js_error + json" where
  "load localStorage key =
     (case JSON_parse (localStorage key) of
        Inl e \<Rightarrow> Inl e
      | Inr v \<Rightarrow> Inr (if ToBoolean v then v else JArray []))"

text \<open>The two declarations in their order: \<open>cart\<close>, then \<open>favorites\<close>.\<close>

definition initial_state :: "storage \<Rightarrow> js_error + json \<times> json" where
  "initial_state localStorage =
     (case load localStorage (utf16 ''shoppingCart'') of
        Inl e \<Rightarrow> Inl e
      | Inr cart \<Rightarrow>
          (case load localStorage (utf16 ''favorites'') of
             Inl e \<Rightarrow> Inl e
           | Inr favorites \<Rightarrow> Inr (cart, favorites)))"

section \<open>Lemmas on the array primitives\<close>

lemma length_update_found: "length (update_found P f xs) = length xs"
  by (induction xs) auto

lemma map_update_found_id:
  assumes "\<And>x. g (f x) = g x"
  shows "map g (update_found P f xs) = map g xs"
  using assms by (induction xs) auto

lemma update_found_none: "find P xs = None \<Longrightarrow> update_found P f xs = xs"
  by (induction xs) (auto split: if_splits)

lemma update_found_nth:
  assumes "find P xs = Some e"
  shows "\<exists>i<length xs. xs ! i = e \<and> P e \<and> (\<forall>j<i. \<not> P (xs ! j)) \<and>
           update_found P f xs = xs[i := f e]"
  using assms
proof (induction xs)
  case Nil
  then show ?case by simp
next
  case (Cons x xs)
  show ?case
  proof (cases "P x")
    case True
    with Cons.prems have "x = e" by simp
    with True show ?thesis by (intro exI[of _ 0]) simp
  next
    case False
    with Cons.prems have "find P xs = Some e" by simp
    from Cons.IH[OF this] obtain i where i: "i < length xs" "xs ! i = e" "P e"
      "\<forall>j<i. \<not> P (xs ! j)" "update_found P f xs = xs[i := f e]" by blast
    have "\<forall>j<Suc i. \<not> P ((x # xs) ! j)"
      using False i(4) by (auto simp: less_Suc_eq_0_disj)
    with i False show ?thesis by (intro exI[of _ "Suc i"]) simp
  qed
qed

lemma set_update_found:
  assumes "find P xs = Some e"
  shows "set (update_found P f xs) \<subseteq> insert (f e) (set xs)"
proof -
  from update_found_nth[OF assms, of f] obtain i where
    "update_found P f xs = xs[i := f e]" by blast
  then show ?thesis by (simp add: set_update_subset_insert)
qed

lemma filter_update_found:
  assumes "\<And>x. P x \<Longrightarrow> P (f x)"
  shows "filter (\<lambda>x. \<not> P x) (update_found P f xs) = filter (\<lambda>x. \<not> P x) xs"
  using assms by (induction xs) auto

lemma findIndex_ge: "- 1 \<le> findIndex P xs"
  by (induction xs) (auto simp: Let_def)

lemma findIndex_less: "findIndex P xs < int (length xs)"
  by (induction xs) (auto simp: Let_def)

lemma findIndex_none_iff: "findIndex P xs = - 1 \<longleftrightarrow> (\<forall>x\<in>set xs. \<not> P x)"
proof (induction xs)
  case Nil
  then show ?case by simp
next
  case (Cons x xs)
  have "findIndex P xs + 1 \<noteq> - 1" using findIndex_ge[of P xs] by arith
  with Cons show ?case by (auto simp: Let_def)
qed

lemma array_splice_one:
  assumes "0 \<le> k"
  shows "array_splice k 1 xs = take (nat k) xs @ drop (Suc (nat k)) xs"
proof (cases "k < int (length xs)")
  case True
  with assms have "nat (k + 1) = Suc (nat k)" by arith
  with True assms show ?thesis by (simp add: array_splice_def Let_def min_def)
next
  case False
  with assms have "length xs \<le> nat k" by arith
  with False assms show ?thesis by (simp add: array_splice_def Let_def min_def)
qed

lemma array_splice_Cons_Suc:
  assumes "0 \<le> k"
  shows "array_splice (k + 1) 1 (x # xs) = x # array_splice k 1 xs"
proof -
  from assms have "nat (k + 1) = Suc (nat k)" by arith
  with assms show ?thesis
    using array_splice_one[of k xs] array_splice_one[of "k + 1" "x # xs"] by simp
qed

lemma array_splice_findIndex:
  assumes "findIndex P xs > - 1"
  shows "array_splice (findIndex P xs) 1 xs = remove_first P xs"
  using assms
proof (induction xs)
  case Nil
  then show ?case by simp
next
  case (Cons x xs)
  show ?case
  proof (cases "P x")
    case True
    then show ?thesis by (simp add: array_splice_one)
  next
    case False
    with Cons.prems have k: "findIndex P xs \<noteq> - 1" by (auto simp: Let_def split: if_splits)
    with findIndex_ge[of P xs] have pos: "0 \<le> findIndex P xs" by arith
    then have "findIndex P xs > - 1" by arith
    from Cons.IH[OF this] array_splice_Cons_Suc[OF pos, of x xs] False k
    show ?thesis by (simp add: Let_def)
  qed
qed

lemma set_remove_first_distinct:
  assumes "distinct (map g xs)" "\<exists>x\<in>set xs. g x = a"
  shows "g ` set (remove_first (\<lambda>x. g x = a) xs) = g ` set xs - {a}"
  using assms
proof (induction xs)
  case Nil
  then show ?case by simp
next
  case (Cons x xs)
  show ?case
  proof (cases "g x = a")
    case True
    with Cons.prems(1) have "a \<notin> g ` set xs" by auto
    with True show ?thesis by auto
  next
    case False
    with Cons.prems have "distinct (map g xs)" "\<exists>x\<in>set xs. g x = a" by auto
    from Cons.IH[OF this] False show ?thesis by auto
  qed
qed

lemma remove_first_append_new:
  assumes "\<forall>x\<in>set xs. \<not> P x" "P y"
  shows "remove_first P (xs @ [y]) = xs"
  using assms by (induction xs) auto

lemma find_key_None:
  "find (\<lambda>item. item_id item = k) cart = None \<longleftrightarrow> k \<notin> item_id ` set cart"
  unfolding find_None_iff by blast

lemma addItemToCart_existing:
  assumes "find (\<lambda>item. item_id item = cartItemId id' variant) cart = Some e"
  shows "\<exists>i<length cart. cart ! i = e \<and> item_id e = cartItemId id' variant \<and>
           (\<forall>j<i. item_id (cart ! j) \<noteq> cartItemId id' variant) \<and>
           addItemToCart id' name price image' variant cart =
             cart[i := e\<lparr>item_quantity := item_quantity e + 1\<rparr>]"
  using update_found_nth[OF assms, of "\<lambda>item. item\<lparr>item_quantity := item_quantity item + 1\<rparr>"]
    assms
  by (simp add: addItemToCart_def Let_def)

lemma addItemToCart_new:
  assumes "cartItemId id' variant \<notin> item_id ` set cart"
  shows "addItemToCart id' name price image' variant cart =
           cart @ [\<lparr>item_id = cartItemId id' variant, item_name = name, item_price = price,
                    item_image = image', item_quantity = 1, item_variant = variant\<rparr>]"
proof -
  from assms have "find (\<lambda>item. item_id item = cartItemId id' variant) cart = None"
    by (simp add: find_key_None)
  then show ?thesis by (simp add: addItemToCart_def Let_def)
qed

lemma find_key_Some:
  assumes "k \<in> item_id ` set cart"
  shows "\<exists>e. find (\<lambda>item. item_id item = k) cart = Some e"
  using assms find_key_None[of k cart] by (cases "find (\<lambda>item. item_id item = k) cart") auto

lemma addItemToCart_distinct:
  assumes "distinct (map item_id cart)"
  shows "distinct (map item_id (addItemToCart id' name price image' variant cart))"
proof (cases "cartItemId id' variant \<in> item_id ` set cart")
  case True
  from find_key_Some[OF this] obtain e where
    "find (\<lambda>item. item_id item = cartItemId id' variant) cart = Some e" by blast
  then have "map item_id (addItemToCart id' name price image' variant cart) = map item_id cart"
    by (simp add: addItemToCart_def Let_def map_update_found_id)
  with assms show ?thesis by simp
next
  case False
  with assms show ?thesis by (simp add: addItemToCart_new)
qed

lemma addItems_distinct:
  "distinct (map item_id cart) \<Longrightarrow> distinct (map item_id (addItems calls cart))"
  by (induction calls cart rule: addItems.induct) (simp_all add: addItemToCart_distinct)

lemma addItemToCart_keys:
  "item_id ` set (addItemToCart id' name price image' variant cart)
     = insert (cartItemId id' variant) (item_id ` set cart)"
proof (cases "cartItemId id' variant \<in> item_id ` set cart")
  case True
  from find_key_Some[OF this] obtain e where
    "find (\<lambda>item. item_id item = cartItemId id' variant) cart = Some e" by blast
  then have "map item_id (addItemToCart id' name price image' variant cart) = map item_id cart"
    by (simp add: addItemToCart_def Let_def map_update_found_id)
  then have "set (map item_id (addItemToCart id' name price image' variant cart))
             = set (map item_id cart)" by simp
  with True show ?thesis by (simp only: set_map) blast
next
  case False
  then show ?thesis by (simp add: addItemToCart_new)
qed

lemma addItems_keys:
  "item_id ` set (addItems calls cart)
     = item_id ` set cart \<union> (\<lambda>(i, n, p, im, v). cartItemId i v) ` set calls"
  by (induction calls cart rule: addItems.induct) (simp_all add: addItemToCart_keys)

lemma updateItemQuantity_absent:
  assumes "id' \<notin> item_id ` set cart"
  shows "updateItemQuantity id' change cart = cart"
proof -
  from assms have "find (\<lambda>item. item_id item = id') cart = None"
    by (simp add: find_key_None)
  then show ?thesis by (simp add: updateItemQuantity_def)
qed

lemma updateItemQuantity_removed:
  assumes "find (\<lambda>item. item_id item = id') cart = Some item"
    and "item_quantity item + change \<le> 0"
  shows "updateItemQuantity id' change cart = filter (\<lambda>cartItem. item_id cartItem \<noteq> id') cart"
  using assms
    filter_update_found[of "\<lambda>item. item_id item = id'"
      "\<lambda>item. item\<lparr>item_quantity := item_quantity item + change\<rparr>" cart]
  by (simp add: updateItemQuantity_def Let_def)

lemma updateItemQuantity_kept:
  assumes "find (\<lambda>item. item_id item = id') cart = Some item"
    and "\<not> item_quantity item + change \<le> 0"
  shows "\<exists>i<length cart. cart ! i = item \<and>
           updateItemQuantity id' change cart =
             cart[i := item\<lparr>item_quantity := item_quantity item + change\<rparr>]"
  using assms
    update_found_nth[OF assms(1), of "\<lambda>item. item\<lparr>item_quantity := item_quantity item + change\<rparr>"]
  by (auto simp: updateItemQuantity_def Let_def)

lemma updateItemQuantity_positive:
  assumes "\<forall>item\<in>set cart. 0 < item_quantity item"
  shows "\<forall>item\<in>set (updateItemQuantity id' change cart). 0 < item_quantity item"
proof (cases "find (\<lambda>item. item_id item = id') cart")
  case None
  with assms show ?thesis by (simp add: updateItemQuantity_def)
next
  case (Some e)
  show ?thesis
  proof (cases "item_quantity e + change \<le> 0")
    case True
    from updateItemQuantity_removed[OF Some True] assms show ?thesis by simp
  next
    case False
    from updateItemQuantity_kept[OF Some False] obtain i where
      "updateItemQuantity id' change cart = cart[i := e\<lparr>item_quantity := item_quantity e + change\<rparr>]"
      by blast
    then have "set (updateItemQuantity id' change cart)
               \<subseteq> insert (e\<lparr>item_quantity := item_quantity e + change\<rparr>) (set cart)"
      by (simp add: set_update_subset_insert)
    with assms False show ?thesis by auto
  qed
qed

lemma updateQuantities_positive:
  "\<forall>item\<in>set cart. 0 < item_quantity item \<Longrightarrow>
   \<forall>item\<in>set (updateQuantities calls cart). 0 < item_quantity item"
proof (induction calls cart rule: updateQuantities.induct)
  case (1 cart)
  then show ?case by simp
next
  case (2 id' change calls cart)
  from updateItemQuantity_positive[OF "2.prems"] "2.IH" show ?case by simp
qed

lemma replace_ws_single:
  "replace_ws [d] v = map (\<lambda>c. if isWhiteSpace c then d else c) v"
  by (induction v) simp_all

lemma toggleFavorite_absent:
  assumes "\<not> isFavorited id' favorites"
  shows "toggleFavorite id' name price image' favorites =
           (Undefined, favorites @ [\<lparr>item_id = id', item_name = name, item_price = price,
                                      item_image = image'\<rparr>])"
proof -
  from assms have "findIndex (\<lambda>item. item_id item = id') favorites = - 1"
    by (simp add: isFavorited_def list_ex_iff findIndex_none_iff)
  then show ?thesis by (simp add: toggleFavorite_def)
qed

lemma toggleFavorite_present:
  assumes "isFavorited id' favorites"
  shows "toggleFavorite id' name price image' favorites =
           (Undefined, remove_first (\<lambda>item. item_id item = id') favorites)"
proof -
  from assms have "findIndex (\<lambda>item. item_id item = id') favorites \<noteq> - 1"
    by (simp add: isFavorited_def list_ex_iff findIndex_none_iff)
  with findIndex_ge[of "\<lambda>item. item_id item = id'" favorites]
  have "findIndex (\<lambda>item. item_id item = id') favorites > - 1" by arith
  with array_splice_findIndex[OF this] show ?thesis by (simp add: toggleFavorite_def)
qed

lemma isFavorited_iff: "isFavorited id' favorites \<longleftrightarrow> id' \<in> item_id ` set favorites"
  unfolding isFavorited_def list_ex_iff by blast

lemma cartItemId_samples:
  "cartItemId (utf16 ''p1'') (Some (utf16 ''Tamanho: 42'')) = utf16 ''p1-Tamanho:-42''"
  "cartItemId (utf16 ''p1'') (Some (utf16 ''Tamanho: 43'')) = utf16 ''p1-Tamanho:-43''"
  "cartItemId (utf16 ''p1'') (Some (utf16 ''a b'')) = utf16 ''p1-a-b''"
  "cartItemId (utf16 ''p1'') (Some (utf16 ''a-b'')) = utf16 ''p1-a-b''"
  "cartItemId (utf16 ''p1'') None = utf16 ''p1''"
  by (simp_all add: cartItemId_def utf16_def isWhiteSpace_def)

lemma utf16_samples_distinct:
  "utf16 ''p1-Tamanho:-42'' \<noteq> utf16 ''p1-Tamanho:-43''"
  "utf16 ''p1-Tamanho:-43'' \<noteq> utf16 ''p1-Tamanho:-42''"
  "utf16 ''p1-a-b'' \<noteq> utf16 ''p1''"
  "utf16 ''a b'' \<noteq> []"
  "utf16 ''a-b'' \<noteq> []"
  by (simp_all add: utf16_def)

section \<open>Cart key\<close>

text \<open>
  C5, as stated, at the empty variant string: the claim asks for the product id followed by
  the separator, the code tests \<open>variant\<close> for truthiness and returns the id alone.
\<close>

theorem cartItemId_empty_variant_counterexample:
  "cartItemId (utf16 ''p1'') (Some (utf16 []))
     \<noteq> utf16 ''p1'' @ utf16 ''-''
         @ map (\<lambda>c. if isWhiteSpace c then of_char CHR ''-'' else c) (utf16 [])"
  by (simp add: cartItemId_def utf16_def)

text \<open>
  C5 (amended): the cart key is the product id unchanged when the variant is null or the
  empty string; for every other variant it is the product id, a hyphen, and the variant
  with each whitespace code unit replaced by a hyphen. Product \<open>p1\<close> with variants
  \<open>Tamanho: 42\<close> and \<open>Tamanho: 43\<close> gets the keys \<open>p1-Tamanho:-42\<close> and
  \<open>p1-Tamanho:-43\<close>, and adding both to the empty cart gives two entries.
\<close>

theorem cartItemId_spec:
  "cartItemId id' None = id' \<and>
   cartItemId id' (Some []) = id' \<and>
   (v \<noteq> [] \<longrightarrow>
      cartItemId id' (Some v) = id' @ [0x2D] @ map (\<lambda>c. if isWhiteSpace c then 0x2D else c) v) \<and>
   cartItemId (utf16 ''p1'') (Some (utf16 ''Tamanho: 42'')) = utf16 ''p1-Tamanho:-42'' \<and>
   cartItemId (utf16 ''p1'') (Some (utf16 ''Tamanho: 43'')) = utf16 ''p1-Tamanho:-43'' \<and>
   map item_id
     (addItems [(utf16 ''p1'', utf16 ''Shoe'', Finite 100, utf16 ''img'', Some (utf16 ''Tamanho: 42'')),
                (utf16 ''p1'', utf16 ''Shoe'', Finite 100, utf16 ''img'', Some (utf16 ''Tamanho: 43''))] [])
     = [utf16 ''p1-Tamanho:-42'', utf16 ''p1-Tamanho:-43'']"
proof -
  have general: "v \<noteq> [] \<longrightarrow>
      cartItemId id' (Some v) = id' @ [0x2D] @ map (\<lambda>c. if isWhiteSpace c then 0x2D else c) v"
    by (simp add: cartItemId_def utf16_def replace_ws_single)
  have k42: "cartItemId (utf16 ''p1'') (Some (utf16 ''Tamanho: 42'')) = utf16 ''p1-Tamanho:-42''"
    by (simp add: cartItemId_def utf16_def isWhiteSpace_def)
  have k43: "cartItemId (utf16 ''p1'') (Some (utf16 ''Tamanho: 43'')) = utf16 ''p1-Tamanho:-43''"
    by (simp add: cartItemId_def utf16_def isWhiteSpace_def)
  have distinct_keys: "utf16 ''p1-Tamanho:-42'' \<noteq> utf16 ''p1-Tamanho:-43''"
    by (simp add: utf16_def)
  have two: "map item_id
     (addItems [(utf16 ''p1'', utf16 ''Shoe'', Finite 100, utf16 ''img'', Some (utf16 ''Tamanho: 42'')),
                (utf16 ''p1'', utf16 ''Shoe'', Finite 100, utf16 ''img'', Some (utf16 ''Tamanho: 43''))] [])
     = [utf16 ''p1-Tamanho:-42'', utf16 ''p1-Tamanho:-43'']"
    using distinct_keys by (simp add: addItemToCart_def k42 k43)
  from general k42 k43 two show ?thesis by (simp add: cartItemId_def)
qed

theorem cartItemId_spec_witness:
  "utf16 ''Tamanho: 42'' \<noteq> [] \<and>
   cartItemId (utf16 ''p1'') (Some (utf16 ''Tamanho: 42''))
     = utf16 ''p1'' @ [0x2D] @ map (\<lambda>c. if isWhiteSpace c then 0x2D else c) (utf16 ''Tamanho: 42'')"
  using cartItemId_spec[where id' = "utf16 ''p1''" and v = "utf16 ''Tamanho: 42''"]
  by (simp add: utf16_def)

section \<open>Adding to the cart\<close>

text \<open>
  C3, as stated, at the pairs \<open>("p1", "a b")\<close> and \<open>("p1", "a-b")\<close>: the two pairs differ,
  both compute the key \<open>p1-a-b\<close>, and the first \<open>addItem\<close> of the second pair appends
  nothing: it raises the quantity of the entry of the first pair to 2.
\<close>

theorem addItem_key_collision_counterexample:
  "(utf16 ''p1'', Some (utf16 ''a b'')) \<noteq> (utf16 ''p1'', Some (utf16 ''a-b'')) \<and>
   addItems [(utf16 ''p1'', utf16 ''Shoe'', Finite 100, utf16 ''img'', Some (utf16 ''a b''))] []
     = [\<lparr>item_id = utf16 ''p1-a-b'', item_name = utf16 ''Shoe'', item_price = Finite 100,
         item_image = utf16 ''img'', item_quantity = 1, item_variant = Some (utf16 ''a b'')\<rparr>] \<and>
   addItemToCart (utf16 ''p1'') (utf16 ''Shoe'') (Finite 100) (utf16 ''img'') (Some (utf16 ''a-b''))
     (addItems [(utf16 ''p1'', utf16 ''Shoe'', Finite 100, utf16 ''img'', Some (utf16 ''a b''))] [])
     = [\<lparr>item_id = utf16 ''p1-a-b'', item_name = utf16 ''Shoe'', item_price = Finite 100,
         item_image = utf16 ''img'', item_quantity = 2, item_variant = Some (utf16 ''a b'')\<rparr>]"
  by (simp add: addItemToCart_def cartItemId_def utf16_def isWhiteSpace_def)

text \<open>
  C3 (amended): in every cart reached from the empty cart by \<open>addItem\<close> calls the keys are
  pairwise distinct, and they are the computed keys of the calls made, so a pair
  (id, variant) added before has its key in the cart. A further \<open>addItem\<close> whose computed
  key is already present (a repeated pair, or another pair with the same key) keeps the
  entries in place and adds 1 to the quantity of the entry with that key; one whose
  computed key is not yet present appends an entry with quantity 1. Two non-empty
  variants of one product have the same key exactly when they agree once their
  whitespace is replaced by hyphens, and never the key of the product without variant.
\<close>

theorem addItem_uniqueness:
  fixes calls :: "add_call list" and id' name name_e image' image_e v w :: js_string
    and price price_e :: js_number
  defines "cart \<equiv> addItems calls []"
  shows "distinct (map item_id cart) \<and>
    item_id ` set cart = (\<lambda>(i, n, p, im, v). cartItemId i v) ` set calls \<and>
    ((id', name_e, price_e, image_e, variant) \<in> set calls \<longrightarrow>
       cartItemId id' variant \<in> item_id ` set cart) \<and>
    (cartItemId id' variant \<in> item_id ` set cart \<longrightarrow>
       (\<exists>i<length cart. item_id (cart ! i) = cartItemId id' variant \<and>
          addItemToCart id' name price image' variant cart =
            cart[i := (cart ! i)\<lparr>item_quantity := item_quantity (cart ! i) + 1\<rparr>])) \<and>
    (cartItemId id' variant \<notin> item_id ` set cart \<longrightarrow>
       addItemToCart id' name price image' variant cart =
         cart @ [\<lparr>item_id = cartItemId id' variant, item_name = name, item_price = price,
                  item_image = image', item_quantity = 1, item_variant = variant\<rparr>]) \<and>
    (v \<noteq> [] \<and> w \<noteq> [] \<longrightarrow>
       (cartItemId id' (Some v) = cartItemId id' (Some w)
          \<longleftrightarrow> replace_ws (utf16 ''-'') v = replace_ws (utf16 ''-'') w)) \<and>
    (v \<noteq> [] \<longrightarrow> cartItemId id' (Some v) \<noteq> cartItemId id' None)"
proof (intro conjI impI)
  show "distinct (map item_id cart)"
    unfolding cart_def by (rule addItems_distinct) simp
next
  show keys: "item_id ` set cart = (\<lambda>(i, n, p, im, v). cartItemId i v) ` set calls"
    unfolding cart_def by (simp add: addItems_keys)
  assume "(id', name_e, price_e, image_e, variant) \<in> set calls"
  then have "(\<lambda>(i, n, p, im, v). cartItemId i v) (id', name_e, price_e, image_e, variant)
             \<in> (\<lambda>(i, n, p, im, v). cartItemId i v) ` set calls"
    by (rule imageI)
  with keys show "cartItemId id' variant \<in> item_id ` set cart" by simp
next
  assume "cartItemId id' variant \<in> item_id ` set cart"
  from find_key_Some[OF this] obtain e where
    "find (\<lambda>item. item_id item = cartItemId id' variant) cart = Some e" by blast
  from addItemToCart_existing[OF this, of name price image'] obtain i where
    "i < length cart" "cart ! i = e" "item_id e = cartItemId id' variant"
    "addItemToCart id' name price image' variant cart =
       cart[i := e\<lparr>item_quantity := item_quantity e + 1\<rparr>]" by blast
  then show "\<exists>i<length cart. item_id (cart ! i) = cartItemId id' variant \<and>
          addItemToCart id' name price image' variant cart =
            cart[i := (cart ! i)\<lparr>item_quantity := item_quantity (cart ! i) + 1\<rparr>]"
    by (intro exI[of _ i]) simp
next
  assume "cartItemId id' variant \<notin> item_id ` set cart"
  then show "addItemToCart id' name price image' variant cart =
         cart @ [\<lparr>item_id = cartItemId id' variant, item_name = name, item_price = price,
                  item_image = image', item_quantity = 1, item_variant = variant\<rparr>]"
    by (rule addItemToCart_new)
next
  assume "v \<noteq> [] \<and> w \<noteq> []"
  then show "cartItemId id' (Some v) = cartItemId id' (Some w)
          \<longleftrightarrow> replace_ws (utf16 ''-'') v = replace_ws (utf16 ''-'') w"
    by (simp add: cartItemId_def)
next
  assume "v \<noteq> []"
  then show "cartItemId id' (Some v) \<noteq> cartItemId id' None"
    by (simp add: cartItemId_def utf16_def)
qed

theorem addItem_uniqueness_witness:
  "(utf16 ''p1'', utf16 ''Shoe'', Finite 100, utf16 ''img1'', Some (utf16 ''Tamanho: 42''))
     \<in> set [(utf16 ''p1'', utf16 ''Shoe'', Finite 100, utf16 ''img1'', Some (utf16 ''Tamanho: 42''))] \<and>
   cartItemId (utf16 ''p1'') (Some (utf16 ''Tamanho: 42''))
     \<in> item_id ` set (addItems
          [(utf16 ''p1'', utf16 ''Shoe'', Finite 100, utf16 ''img1'', Some (utf16 ''Tamanho: 42''))] []) \<and>
   addItemToCart (utf16 ''p1'') (utf16 ''Boot'') (Finite 5) (utf16 ''img2'')
       (Some (utf16 ''Tamanho: 42''))
       (addItems
          [(utf16 ''p1'', utf16 ''Shoe'', Finite 100, utf16 ''img1'', Some (utf16 ''Tamanho: 42''))] [])
     = [\<lparr>item_id = utf16 ''p1-Tamanho:-42'', item_name = utf16 ''Shoe'',
         item_price = Finite 100, item_image = utf16 ''img1'', item_quantity = 2,
         item_variant = Some (utf16 ''Tamanho: 42'')\<rparr>] \<and>
   cartItemId (utf16 ''p1'') (Some (utf16 ''Tamanho: 43''))
     \<notin> item_id ` set (addItems
          [(utf16 ''p1'', utf16 ''Shoe'', Finite 100, utf16 ''img1'', Some (utf16 ''Tamanho: 42''))] []) \<and>
   addItemToCart (utf16 ''p1'') (utf16 ''Boot'') (Finite 5) (utf16 ''img2'')
       (Some (utf16 ''Tamanho: 43''))
       (addItems
          [(utf16 ''p1'', utf16 ''Shoe'', Finite 100, utf16 ''img1'', Some (utf16 ''Tamanho: 42''))] [])
     = [\<lparr>item_id = utf16 ''p1-Tamanho:-42'', item_name = utf16 ''Shoe'',
         item_price = Finite 100, item_image = utf16 ''img1'', item_quantity = 1,
         item_variant = Some (utf16 ''Tamanho: 42'')\<rparr>,
        \<lparr>item_id = utf16 ''p1-Tamanho:-43'', item_name = utf16 ''Boot'',
         item_price = Finite 5, item_image = utf16 ''img2'', item_quantity = 1,
         item_variant = Some (utf16 ''Tamanho: 43'')\<rparr>] \<and>
   utf16 ''a b'' \<noteq> [] \<and> utf16 ''a-b'' \<noteq> [] \<and>
   cartItemId (utf16 ''p1'') (Some (utf16 ''a b'')) = cartItemId (utf16 ''p1'') (Some (utf16 ''a-b'')) \<and>
   cartItemId (utf16 ''p1'') (Some (utf16 ''a b'')) \<noteq> cartItemId (utf16 ''p1'') None"
  using addItem_uniqueness[where id' = "utf16 ''p1''" and variant = "Some (utf16 ''Tamanho: 42'')"
          and calls = "[(utf16 ''p1'', utf16 ''Shoe'', Finite 100, utf16 ''img1'',
                         Some (utf16 ''Tamanho: 42''))]"
          and name_e = "utf16 ''Shoe''" and price_e = "Finite 100" and image_e = "utf16 ''img1''"
          and name = "utf16 ''Boot''" and price = "Finite 5" and image' = "utf16 ''img2''"
          and v = "utf16 ''a b''" and w = "utf16 ''a-b''"]
        addItem_uniqueness[where id' = "utf16 ''p1''" and variant = "Some (utf16 ''Tamanho: 43'')"
          and calls = "[(utf16 ''p1'', utf16 ''Shoe'', Finite 100, utf16 ''img1'',
                         Some (utf16 ''Tamanho: 42''))]"
          and name_e = "utf16 ''Shoe''" and price_e = "Finite 100" and image_e = "utf16 ''img1''"
          and name = "utf16 ''Boot''" and price = "Finite 5" and image' = "utf16 ''img2''"
          and v = "utf16 ''a b''" and w = "utf16 ''a-b''"]
  by (simp add: addItemToCart_def cartItemId_samples utf16_samples_distinct)

text \<open>
  C9: when the computed key is already in the cart, \<open>addItem\<close> changes one entry only, the
  first with that key, and of that entry only the quantity, which grows by 1. Its id,
  name, price, image and variant and all other entries stay as they were, whatever name,
  price and image the call passes.
\<close>

theorem addItem_existing_frame:
  fixes id' name image' :: js_string and price :: js_number
  assumes "cartItemId id' variant \<in> item_id ` set cart"
  defines "cart' \<equiv> addItemToCart id' name price image' variant cart"
  shows "\<exists>i<length cart.
           item_id (cart ! i) = cartItemId id' variant \<and>
           (\<forall>j<i. item_id (cart ! j) \<noteq> cartItemId id' variant) \<and>
           length cart' = length cart \<and>
           item_quantity (cart' ! i) = item_quantity (cart ! i) + 1 \<and>
           item_id (cart' ! i) = item_id (cart ! i) \<and>
           item_name (cart' ! i) = item_name (cart ! i) \<and>
           item_price (cart' ! i) = item_price (cart ! i) \<and>
           item_image (cart' ! i) = item_image (cart ! i) \<and>
           item_variant (cart' ! i) = item_variant (cart ! i) \<and>
           (\<forall>j<length cart. j \<noteq> i \<longrightarrow> cart' ! j = cart ! j)"
proof -
  from find_key_Some[OF assms(1)] obtain e where
    "find (\<lambda>item. item_id item = cartItemId id' variant) cart = Some e" by blast
  from addItemToCart_existing[OF this, of name price image'] obtain i where i:
    "i < length cart" "cart ! i = e" "item_id e = cartItemId id' variant"
    "\<forall>j<i. item_id (cart ! j) \<noteq> cartItemId id' variant"
    "cart' = cart[i := e\<lparr>item_quantity := item_quantity e + 1\<rparr>]"
    unfolding cart'_def by blast
  show ?thesis
    using i by (intro exI[of _ i]) simp
qed

theorem addItem_existing_frame_witness:
  "cartItemId (utf16 ''p1'') None
     \<in> item_id ` set [\<lparr>item_id = utf16 ''p0'', item_name = utf16 ''Hat'', item_price = Finite 30,
                         item_image = utf16 ''img0'', item_quantity = 4, item_variant = None\<rparr>,
                       \<lparr>item_id = utf16 ''p1'', item_name = utf16 ''Shoe'', item_price = Finite 100,
                         item_image = utf16 ''img1'', item_quantity = 1, item_variant = None\<rparr>] \<and>
   addItemToCart (utf16 ''p1'') (utf16 ''Boot'') (Finite 5) (utf16 ''img2'') None
     [\<lparr>item_id = utf16 ''p0'', item_name = utf16 ''Hat'', item_price = Finite 30,
       item_image = utf16 ''img0'', item_quantity = 4, item_variant = None\<rparr>,
      \<lparr>item_id = utf16 ''p1'', item_name = utf16 ''Shoe'', item_price = Finite 100,
       item_image = utf16 ''img1'', item_quantity = 1, item_variant = None\<rparr>]
   = [\<lparr>item_id = utf16 ''p0'', item_name = utf16 ''Hat'', item_price = Finite 30,
       item_image = utf16 ''img0'', item_quantity = 4, item_variant = None\<rparr>,
      \<lparr>item_id = utf16 ''p1'', item_name = utf16 ''Shoe'', item_price = Finite 100,
       item_image = utf16 ''img1'', item_quantity = 2, item_variant = None\<rparr>]"
  using addItem_existing_frame[where id' = "utf16 ''p1''" and variant = None
          and cart = "[\<lparr>item_id = utf16 ''p0'', item_name = utf16 ''Hat'', item_price = Finite 30,
              item_image = utf16 ''img0'', item_quantity = 4, item_variant = None\<rparr>,
            \<lparr>item_id = utf16 ''p1'', item_name = utf16 ''Shoe'', item_price = Finite 100,
              item_image = utf16 ''img1'', item_quantity = 1, item_variant = None\<rparr>]"
          and name = "utf16 ''Boot''" and price = "Finite 5" and image' = "utf16 ''img2''"]
  by (simp add: addItemToCart_def cartItemId_def utf16_def)

section \<open>Updating quantities\<close>

text \<open>
  C4: starting from a cart whose quantities are all at least 1, after any sequence of
  \<open>updateQuantity\<close> calls every entry still has a positive quantity; and whenever a call
  finds its entry and the delta brings the quantity to 0 or below, no entry with that id
  is left in the cart.
\<close>

theorem updateQuantity_floor:
  fixes calls :: "(js_string \<times> int) list" and id' :: js_string and change :: int
  assumes "\<forall>item\<in>set cart. 1 \<le> item_quantity item"
  defines "cart' \<equiv> updateQuantities calls cart"
  shows "(\<forall>item\<in>set cart'. \<not> item_quantity item \<le> 0) \<and>
         (\<forall>item\<in>set (updateItemQuantity id' change cart'). \<not> item_quantity item \<le> 0) \<and>
         (\<forall>item. find (\<lambda>item. item_id item = id') cart' = Some item \<and>
                  item_quantity item + change \<le> 0 \<longrightarrow>
                  id' \<notin> item_id ` set (updateItemQuantity id' change cart'))"
proof -
  from assms(1) have "\<forall>item\<in>set cart. 0 < item_quantity item" by auto
  from updateQuantities_positive[OF this, of calls]
  have inv: "\<forall>item\<in>set cart'. 0 < item_quantity item"
    unfolding cart'_def .
  from updateItemQuantity_positive[OF inv, of id' change]
  have step: "\<forall>item\<in>set (updateItemQuantity id' change cart'). 0 < item_quantity item" .
  have removed: "id' \<notin> item_id ` set (updateItemQuantity id' change cart')"
    if "find (\<lambda>item. item_id item = id') cart' = Some item"
      and "item_quantity item + change \<le> 0" for item
    using updateItemQuantity_removed[OF that] by auto
  from inv step removed show ?thesis by (auto simp: not_le)
qed

theorem updateQuantity_floor_witness:
  "list_all (\<lambda>item. 1 \<le> item_quantity item)
     [\<lparr>item_id = utf16 ''p1'', item_name = utf16 ''Shoe'', item_price = Finite 100,
       item_image = utf16 ''img1'', item_quantity = 1, item_variant = None\<rparr>,
      \<lparr>item_id = utf16 ''p2'', item_name = utf16 ''Hat'', item_price = Finite 30,
       item_image = utf16 ''img2'', item_quantity = 2, item_variant = None\<rparr>] \<and>
   find (\<lambda>item. item_id item = utf16 ''p1'')
     (updateQuantities [(utf16 ''p2'', 1)]
        [\<lparr>item_id = utf16 ''p1'', item_name = utf16 ''Shoe'', item_price = Finite 100,
          item_image = utf16 ''img1'', item_quantity = 1, item_variant = None\<rparr>,
         \<lparr>item_id = utf16 ''p2'', item_name = utf16 ''Hat'', item_price = Finite 30,
          item_image = utf16 ''img2'', item_quantity = 2, item_variant = None\<rparr>])
     = Some \<lparr>item_id = utf16 ''p1'', item_name = utf16 ''Shoe'', item_price = Finite 100,
              item_image = utf16 ''img1'', item_quantity = 1, item_variant = None\<rparr> \<and>
   updateItemQuantity (utf16 ''p1'') (- 1)
     (updateQuantities [(utf16 ''p2'', 1)]
        [\<lparr>item_id = utf16 ''p1'', item_name = utf16 ''Shoe'', item_price = Finite 100,
          item_image = utf16 ''img1'', item_quantity = 1, item_variant = None\<rparr>,
         \<lparr>item_id = utf16 ''p2'', item_name = utf16 ''Hat'', item_price = Finite 30,
          item_image = utf16 ''img2'', item_quantity = 2, item_variant = None\<rparr>])
     = [\<lparr>item_id = utf16 ''p2'', item_name = utf16 ''Hat'', item_price = Finite 30,
         item_image = utf16 ''img2'', item_quantity = 3, item_variant = None\<rparr>]"
  using updateQuantity_floor[where id' = "utf16 ''p1''" and change = "- 1"
          and calls = "[(utf16 ''p2'', 1)]"
          and cart = "[\<lparr>item_id = utf16 ''p1'', item_name = utf16 ''Shoe'', item_price = Finite 100,
                         item_image = utf16 ''img1'', item_quantity = 1, item_variant = None\<rparr>,
                       \<lparr>item_id = utf16 ''p2'', item_name = utf16 ''Hat'', item_price = Finite 30,
                         item_image = utf16 ''img2'', item_quantity = 2, item_variant = None\<rparr>]"]
  by (simp add: updateItemQuantity_def utf16_def)

text \<open>
  C8: when no entry of the cart has the given id, \<open>updateQuantity\<close> returns at its first
  test, whatever the delta: the cart is the same list afterwards (and \<open>updateCart\<close> is not
  reached). The operation has no failing branch.
\<close>

theorem updateQuantity_absent_noop:
  assumes "\<forall>item\<in>set cart. item_id item \<noteq> id'"
  shows "updateItemQuantity id' change cart = cart"
proof -
  from assms have "id' \<notin> item_id ` set cart" by auto
  then show ?thesis by (rule updateItemQuantity_absent)
qed

theorem updateQuantity_absent_noop_witness:
  "list_all (\<lambda>item. item_id item \<noteq> utf16 ''p9'')
     [\<lparr>item_id = utf16 ''p1'', item_name = utf16 ''Shoe'', item_price = Finite 100,
       item_image = utf16 ''img1'', item_quantity = 1, item_variant = None\<rparr>] \<and>
   updateItemQuantity (utf16 ''p9'') (- 7)
     [\<lparr>item_id = utf16 ''p1'', item_name = utf16 ''Shoe'', item_price = Finite 100,
       item_image = utf16 ''img1'', item_quantity = 1, item_variant = None\<rparr>]
   = [\<lparr>item_id = utf16 ''p1'', item_name = utf16 ''Shoe'', item_price = Finite 100,
       item_image = utf16 ''img1'', item_quantity = 1, item_variant = None\<rparr>]"
  using updateQuantity_absent_noop[where id' = "utf16 ''p9''" and change = "- 7"
          and cart = "[\<lparr>item_id = utf16 ''p1'', item_name = utf16 ''Shoe'', item_price = Finite 100,
                         item_image = utf16 ''img1'', item_quantity = 1, item_variant = None\<rparr>]"]
  by (simp add: utf16_def)

text \<open>
  C10: when the delta brings the quantity of the matched entry (the first with the given
  id) to 0 or below, the cart afterwards is the old cart without every entry of that id,
  duplicates included; the entries of other ids are kept, unchanged and in order.
\<close>

theorem updateQuantity_removes_all:
  assumes "find (\<lambda>item. item_id item = id') cart = Some item"
    and "item_quantity item + change \<le> 0"
  shows "updateItemQuantity id' change cart = filter (\<lambda>cartItem. item_id cartItem \<noteq> id') cart \<and>
         (\<forall>cartItem\<in>set (updateItemQuantity id' change cart). item_id cartItem \<noteq> id')"
  using updateItemQuantity_removed[OF assms] by simp

theorem updateQuantity_removes_all_witness:
  "find (\<lambda>item. item_id item = utf16 ''p1'')
     [\<lparr>item_id = utf16 ''p1'', item_name = utf16 ''Shoe'', item_price = Finite 100,
       item_image = utf16 ''img1'', item_quantity = 1, item_variant = None\<rparr>,
      \<lparr>item_id = utf16 ''p2'', item_name = utf16 ''Hat'', item_price = Finite 30,
       item_image = utf16 ''img2'', item_quantity = 2, item_variant = None\<rparr>,
      \<lparr>item_id = utf16 ''p1'', item_name = utf16 ''Shoe'', item_price = Finite 100,
       item_image = utf16 ''img1'', item_quantity = 5, item_variant = None\<rparr>]
    = Some \<lparr>item_id = utf16 ''p1'', item_name = utf16 ''Shoe'', item_price = Finite 100,
             item_image = utf16 ''img1'', item_quantity = 1, item_variant = None\<rparr> \<and>
   item_quantity \<lparr>item_id = utf16 ''p1'', item_name = utf16 ''Shoe'', item_price = Finite 100,
                   item_image = utf16 ''img1'', item_quantity = 1, item_variant = None\<rparr>
     + (- 1) \<le> 0 \<and>
   updateItemQuantity (utf16 ''p1'') (- 1)
     [\<lparr>item_id = utf16 ''p1'', item_name = utf16 ''Shoe'', item_price = Finite 100,
       item_image = utf16 ''img1'', item_quantity = 1, item_variant = None\<rparr>,
      \<lparr>item_id = utf16 ''p2'', item_name = utf16 ''Hat'', item_price = Finite 30,
       item_image = utf16 ''img2'', item_quantity = 2, item_variant = None\<rparr>,
      \<lparr>item_id = utf16 ''p1'', item_name = utf16 ''Shoe'', item_price = Finite 100,
       item_image = utf16 ''img1'', item_quantity = 5, item_variant = None\<rparr>]
    = [\<lparr>item_id = utf16 ''p2'', item_name = utf16 ''Hat'', item_price = Finite 30,
        item_image = utf16 ''img2'', item_quantity = 2, item_variant = None\<rparr>]"
  using updateQuantity_removes_all[where id' = "utf16 ''p1''" and change = "- 1"
          and item = "\<lparr>item_id = utf16 ''p1'', item_name = utf16 ''Shoe'', item_price = Finite 100,
                         item_image = utf16 ''img1'', item_quantity = 1, item_variant = None\<rparr>"
          and cart = "[\<lparr>item_id = utf16 ''p1'', item_name = utf16 ''Shoe'', item_price = Finite 100,
                         item_image = utf16 ''img1'', item_quantity = 1, item_variant = None\<rparr>,
                       \<lparr>item_id = utf16 ''p2'', item_name = utf16 ''Hat'', item_price = Finite 30,
                         item_image = utf16 ''img2'', item_quantity = 2, item_variant = None\<rparr>,
                       \<lparr>item_id = utf16 ''p1'', item_name = utf16 ''Shoe'', item_price = Finite 100,
                         item_image = utf16 ''img1'', item_quantity = 5, item_variant = None\<rparr>]"]
  by (simp add: updateItemQuantity_def utf16_def)

section \<open>Favorites\<close>

text \<open>
  C2, as stated, at the first toggle of \<open>p1\<close> on the empty favorites list: the call adds
  the item, and its value is \<open>undefined\<close>, not \<open>true\<close>.
\<close>

theorem toggleFavorite_returns_counterexample:
  "snd (toggleFavorite (utf16 ''p1'') (utf16 ''Shoe'') (Finite 100) (utf16 ''img'') [])
     = [\<lparr>item_id = utf16 ''p1'', item_name = utf16 ''Shoe'', item_price = Finite 100,
         item_image = utf16 ''img''\<rparr>] \<and>
   fst (toggleFavorite (utf16 ''p1'') (utf16 ''Shoe'') (Finite 100) (utf16 ''img'') []) \<noteq> Boolean True"
  by (simp add: toggleFavorite_def)

text \<open>
  C2 (amended): \<open>toggle\<close> returns no value (\<open>undefined\<close>) on every call. The new membership
  is read off the collection: an id that was not favorited is favorited after the call
  (a new entry is appended), and an id that was favorited in a collection with unique ids
  is not favorited after the call.
\<close>

theorem toggleFavorite_membership:
  "fst (toggleFavorite id' name price image' favorites) = Undefined \<and>
   (\<not> isFavorited id' favorites \<longrightarrow>
      snd (toggleFavorite id' name price image' favorites)
        = favorites @ [\<lparr>item_id = id', item_name = name, item_price = price,
                          item_image = image'\<rparr>] \<and>
      isFavorited id' (snd (toggleFavorite id' name price image' favorites))) \<and>
   (isFavorited id' favorites \<and> distinct (map item_id favorites) \<longrightarrow>
      \<not> isFavorited id' (snd (toggleFavorite id' name price image' favorites)))"
proof (intro conjI impI)
  show "fst (toggleFavorite id' name price image' favorites) = Undefined"
    by (simp add: toggleFavorite_def Let_def)
next
  assume "\<not> isFavorited id' favorites"
  from toggleFavorite_absent[OF this]
  show "snd (toggleFavorite id' name price image' favorites)
        = favorites @ [\<lparr>item_id = id', item_name = name, item_price = price,
                          item_image = image'\<rparr>]"
    by simp
next
  assume "\<not> isFavorited id' favorites"
  from toggleFavorite_absent[OF this, of name price image']
  show "isFavorited id' (snd (toggleFavorite id' name price image' favorites))"
    by (simp add: isFavorited_iff)
next
  assume a: "isFavorited id' favorites \<and> distinct (map item_id favorites)"
  then have "\<exists>x\<in>set favorites. item_id x = id'"
    by (simp add: isFavorited_def list_ex_iff)
  with a have "item_id ` set (remove_first (\<lambda>item. item_id item = id') favorites)
               = item_id ` set favorites - {id'}"
    by (simp add: set_remove_first_distinct)
  with a toggleFavorite_present[of id' favorites name price image']
  show "\<not> isFavorited id' (snd (toggleFavorite id' name price image' favorites))"
    by (simp add: isFavorited_iff)
qed

theorem toggleFavorite_membership_witness:
  "\<not> isFavorited (utf16 ''p1'') [] \<and>
   isFavorited (utf16 ''p1'')
     (snd (toggleFavorite (utf16 ''p1'') (utf16 ''Shoe'') (Finite 100) (utf16 ''img'') [])) \<and>
   isFavorited (utf16 ''p1'')
     [\<lparr>item_id = utf16 ''p1'', item_name = utf16 ''Shoe'', item_price = Finite 100,
       item_image = utf16 ''img''\<rparr>] \<and>
   distinct (map item_id
     [\<lparr>item_id = utf16 ''p1'', item_name = utf16 ''Shoe'', item_price = Finite 100,
       item_image = utf16 ''img''\<rparr>]) \<and>
   \<not> isFavorited (utf16 ''p1'')
     (snd (toggleFavorite (utf16 ''p1'') (utf16 ''Shoe'') (Finite 100) (utf16 ''img'')
        [\<lparr>item_id = utf16 ''p1'', item_name = utf16 ''Shoe'', item_price = Finite 100,
          item_image = utf16 ''img''\<rparr>]))"
  using toggleFavorite_membership[where id' = "utf16 ''p1''" and name = "utf16 ''Shoe''"
          and price = "Finite 100" and image' = "utf16 ''img''" and favorites = "[]"]
        toggleFavorite_membership[where id' = "utf16 ''p1''" and name = "utf16 ''Shoe''"
          and price = "Finite 100" and image' = "utf16 ''img''"
          and favorites = "[\<lparr>item_id = utf16 ''p1'', item_name = utf16 ''Shoe'',
                              item_price = Finite 100, item_image = utf16 ''img''\<rparr>]"]
  by (simp add: isFavorited_def)

text \<open>
  C7, as stated, on the favorites list holding \<open>p2\<close> only, toggling the absent \<open>p1\<close> twice:
  the two calls do not return \<open>true\<close> and then \<open>false\<close>.
\<close>

theorem toggleFavorite_twice_counterexample:
  "distinct (map item_id
     [\<lparr>item_id = utf16 ''p2'', item_name = utf16 ''Hat'', item_price = Finite 30,
       item_image = utf16 ''img2''\<rparr>]) \<and>
   \<not> isFavorited (utf16 ''p1'')
     [\<lparr>item_id = utf16 ''p2'', item_name = utf16 ''Hat'', item_price = Finite 30,
       item_image = utf16 ''img2''\<rparr>] \<and>
   (fst (toggleFavorite (utf16 ''p1'') (utf16 ''Shoe'') (Finite 100) (utf16 ''img'')
           [\<lparr>item_id = utf16 ''p2'', item_name = utf16 ''Hat'', item_price = Finite 30,
             item_image = utf16 ''img2''\<rparr>]),
    fst (toggleFavorite (utf16 ''p1'') (utf16 ''Shoe'') (Finite 100) (utf16 ''img'')
           (snd (toggleFavorite (utf16 ''p1'') (utf16 ''Shoe'') (Finite 100) (utf16 ''img'')
              [\<lparr>item_id = utf16 ''p2'', item_name = utf16 ''Hat'', item_price = Finite 30,
                item_image = utf16 ''img2''\<rparr>]))))
     \<noteq> (Boolean True, Boolean False)"
  by (simp add: toggleFavorite_def isFavorited_def utf16_def)

text \<open>
  C7 (amended): on a favorites collection with unique ids, two \<open>toggle\<close> calls with the same
  id (whatever the other arguments) both return no value; when the id was absent it is
  favorited after the first call and absent again after the second, the collection being
  the initial one; and in every case the set of ids after the two calls is the initial set.
\<close>

theorem toggleFavorite_twice:
  fixes id' name_a name_b image_a image_b :: js_string and price_a price_b :: js_number
  assumes "distinct (map item_id favorites)"
  defines "r1 \<equiv> toggleFavorite id' name_a price_a image_a favorites"
  defines "r2 \<equiv> toggleFavorite id' name_b price_b image_b (snd r1)"
  shows "fst r1 = Undefined \<and> fst r2 = Undefined \<and>
         (\<not> isFavorited id' favorites \<longrightarrow>
            isFavorited id' (snd r1) \<and> \<not> isFavorited id' (snd r2) \<and> snd r2 = favorites) \<and>
         item_id ` set (snd r2) = item_id ` set favorites"
proof (cases "isFavorited id' favorites")
  case False
  then have none: "\<forall>x\<in>set favorites. \<not> item_id x = id'"
    by (simp add: isFavorited_def list_ex_iff)
  from False have r1: "r1 = (Undefined, favorites @ [\<lparr>item_id = id', item_name = name_a,
                              item_price = price_a, item_image = image_a\<rparr>])"
    unfolding r1_def by (rule toggleFavorite_absent)
  then have fav1: "isFavorited id' (snd r1)" by (simp add: isFavorited_iff)
  from toggleFavorite_present[OF fav1, of name_b price_b image_b] r1 none
  have r2: "r2 = (Undefined, favorites)"
    unfolding r2_def by (simp add: remove_first_append_new)
  from False r1 r2 fav1 show ?thesis by simp
next
  case True
  then have ex: "\<exists>x\<in>set favorites. item_id x = id'"
    by (simp add: isFavorited_def list_ex_iff)
  from True have r1: "r1 = (Undefined, remove_first (\<lambda>item. item_id item = id') favorites)"
    unfolding r1_def by (rule toggleFavorite_present)
  from set_remove_first_distinct[OF assms(1) ex]
  have ids1: "item_id ` set (snd r1) = item_id ` set favorites - {id'}"
    using r1 by simp
  then have "\<not> isFavorited id' (snd r1)" by (simp add: isFavorited_iff)
  from toggleFavorite_absent[OF this, of name_b price_b image_b]
  have r2: "r2 = (Undefined, snd r1 @ [\<lparr>item_id = id', item_name = name_b,
                              item_price = price_b, item_image = image_b\<rparr>])"
    unfolding r2_def .
  from True have "id' \<in> item_id ` set favorites" by (simp add: isFavorited_iff)
  with ids1 r2 have "item_id ` set (snd r2) = item_id ` set favorites" by auto
  with True r1 r2 show ?thesis by simp
qed

theorem toggleFavorite_twice_witness:
  "distinct (map item_id
     [\<lparr>item_id = utf16 ''p2'', item_name = utf16 ''Hat'', item_price = Finite 30,
       item_image = utf16 ''img2''\<rparr>]) \<and>
   snd (toggleFavorite (utf16 ''p1'') (utf16 ''Boot'') (Finite 5) (utf16 ''img3'')
          (snd (toggleFavorite (utf16 ''p1'') (utf16 ''Shoe'') (Finite 100) (utf16 ''img'')
             [\<lparr>item_id = utf16 ''p2'', item_name = utf16 ''Hat'', item_price = Finite 30,
               item_image = utf16 ''img2''\<rparr>])))
     = [\<lparr>item_id = utf16 ''p2'', item_name = utf16 ''Hat'', item_price = Finite 30,
         item_image = utf16 ''img2''\<rparr>]"
  using toggleFavorite_twice[where id' = "utf16 ''p1''" and name_a = "utf16 ''Shoe''"
          and price_a = "Finite 100" and image_a = "utf16 ''img''" and name_b = "utf16 ''Boot''"
          and price_b = "Finite 5" and image_b = "utf16 ''img3''"
          and favorites = "[\<lparr>item_id = utf16 ''p2'', item_name = utf16 ''Hat'',
                              item_price = Finite 30, item_image = utf16 ''img2''\<rparr>]"]
  by (simp add: isFavorited_def utf16_def)

section \<open>Loading from the store\<close>

lemmas json_defs =
  JSON_parse_def utf16_def idle_step_def after_token_def is_json_ws_def is_digit_def
  is_number_char_def is_letter_def hex_value_def escape_char_def digits_value_def
  starts_with_def number_value_def word_value_def deliver_def value_start_def key_start_def
  close_array_def close_object_def Let_def

lemma JSON_parse_null: "JSON_parse None = Inr JNull"
  by (simp add: json_defs)

lemma JSON_parse_empty_array: "JSON_parse (Some (utf16 ''[]'')) = Inr (JArray [])"
  by (simp add: json_defs)

text \<open>The text \<open>[{"id":"p1","quantity":2}]\<close>, a cart as \<open>updateCart\<close> writes it.\<close>

lemma JSON_parse_cart_text:
  "JSON_parse (Some (utf16 ''[{'' @ [0x22] @ utf16 ''id'' @ [0x22] @ utf16 '':'' @ [0x22]
                     @ utf16 ''p1'' @ [0x22] @ utf16 '','' @ [0x22] @ utf16 ''quantity''
                     @ [0x22] @ utf16 '':2}]''))
   = Inr (JArray [JObject [(utf16 ''id'', JString (utf16 ''p1'')),
                           (utf16 ''quantity'', JNumber (round_double 2))]])"
  by (simp add: json_defs)

lemma JSON_parse_malformed:
  "JSON_parse (Some []) = Inl SyntaxError"
  "JSON_parse (Some (utf16 ''undefined'')) = Inl SyntaxError"
  "JSON_parse (Some (utf16 ''[1,]'')) = Inl SyntaxError"
  "JSON_parse (Some (utf16 ''[1,2'')) = Inl SyntaxError"
  "JSON_parse (Some (utf16 ''{'')) = Inl SyntaxError"
  by (simp_all add: json_defs)

lemma js_error_is_SyntaxError: "(e :: js_error) = SyntaxError"
  by (cases e) simp

text \<open>
  C1, as stated, at a store whose \<open>shoppingCart\<close> entry holds the text \<open>[object Object]\<close>:
  the text is not JSON, and the load raises \<open>SyntaxError\<close> instead of yielding the empty
  sequence; the initialisation stops there.
\<close>

theorem load_malformed_counterexample:
  "JSON_parse (Some (utf16 ''[object Object]'')) = Inl SyntaxError \<and>
   load [utf16 ''shoppingCart'' \<mapsto> utf16 ''[object Object]''] (utf16 ''shoppingCart'')
     = Inl SyntaxError \<and>
   load [utf16 ''shoppingCart'' \<mapsto> utf16 ''[object Object]''] (utf16 ''shoppingCart'')
     \<noteq> Inr (JArray []) \<and>
   initial_state [utf16 ''shoppingCart'' \<mapsto> utf16 ''[object Object]''] = Inl SyntaxError"
proof -
  have bad: "JSON_parse (Some (utf16 ''[object Object]'')) = Inl SyntaxError"
    by (simp add: json_defs)
  then have "load [utf16 ''shoppingCart'' \<mapsto> utf16 ''[object Object]''] (utf16 ''shoppingCart'')
     = Inl SyntaxError"
    by (simp add: load_def)
  with bad show ?thesis by (simp add: initial_state_def)
qed

text \<open>
  C1 (amended): the load of a key never raises on a missing key, and then yields the empty
  sequence; when both keys are missing the initial cart and favorites are both empty.
  On stored content that is not a JSON text the load raises \<open>SyntaxError\<close>, and so does the
  initialisation as soon as one of the two loads does.
\<close>

theorem load_absent_or_malformed:
  "(localStorage key = None \<longrightarrow> load localStorage key = Inr (JArray [])) \<and>
   (localStorage (utf16 ''shoppingCart'') = None \<and> localStorage (utf16 ''favorites'') = None \<longrightarrow>
      initial_state localStorage = Inr (JArray [], JArray [])) \<and>
   (JSON_parse (localStorage key) = Inl SyntaxError \<longrightarrow>
      (\<exists>s. localStorage key = Some s) \<and> load localStorage key = Inl SyntaxError) \<and>
   (load localStorage (utf16 ''shoppingCart'') = Inl SyntaxError \<or>
    load localStorage (utf16 ''favorites'') = Inl SyntaxError \<longrightarrow>
      initial_state localStorage = Inl SyntaxError)"
proof (intro conjI impI)
  assume "localStorage key = None"
  then show "load localStorage key = Inr (JArray [])"
    by (simp add: load_def JSON_parse_null)
next
  assume "localStorage (utf16 ''shoppingCart'') = None \<and> localStorage (utf16 ''favorites'') = None"
  then show "initial_state localStorage = Inr (JArray [], JArray [])"
    by (simp add: initial_state_def load_def JSON_parse_null)
next
  assume bad: "JSON_parse (localStorage key) = Inl SyntaxError"
  show "\<exists>s. localStorage key = Some s"
  proof (cases "localStorage key")
    case None
    with bad show ?thesis by (simp add: JSON_parse_null)
  next
    case (Some s)
    then show ?thesis by blast
  qed
next
  assume "JSON_parse (localStorage key) = Inl SyntaxError"
  then show "load localStorage key = Inl SyntaxError"
    by (simp add: load_def)
next
  assume "load localStorage (utf16 ''shoppingCart'') = Inl SyntaxError \<or>
    load localStorage (utf16 ''favorites'') = Inl SyntaxError"
  then show "initial_state localStorage = Inl SyntaxError"
    by (auto simp: initial_state_def js_error_is_SyntaxError split: sum.splits)
qed

theorem load_absent_or_malformed_witness:
  "[utf16 ''favorites'' \<mapsto> utf16 ''[1,''] (utf16 ''shoppingCart'') = None \<and>
   load [utf16 ''favorites'' \<mapsto> utf16 ''[1,''] (utf16 ''shoppingCart'') = Inr (JArray []) \<and>
   JSON_parse ([utf16 ''favorites'' \<mapsto> utf16 ''[1,''] (utf16 ''favorites'')) = Inl SyntaxError \<and>
   load [utf16 ''favorites'' \<mapsto> utf16 ''[1,''] (utf16 ''favorites'') = Inl SyntaxError \<and>
   initial_state [utf16 ''favorites'' \<mapsto> utf16 ''[1,''] = Inl SyntaxError \<and>
   Map.empty (utf16 ''shoppingCart'') = (None :: js_string option) \<and>
   Map.empty (utf16 ''favorites'') = (None :: js_string option) \<and>
   initial_state Map.empty = Inr (JArray [], JArray [])"
proof -
  have absent: "[utf16 ''favorites'' \<mapsto> utf16 ''[1,''] (utf16 ''shoppingCart'') = None"
    by (simp add: utf16_def)
  have bad: "JSON_parse ([utf16 ''favorites'' \<mapsto> utf16 ''[1,''] (utf16 ''favorites''))
             = Inl SyntaxError"
    by (simp add: json_defs)
  from absent bad
    load_absent_or_malformed[where localStorage = "[utf16 ''favorites'' \<mapsto> utf16 ''[1,'']"
      and key = "utf16 ''shoppingCart''"]
    load_absent_or_malformed[where localStorage = "[utf16 ''favorites'' \<mapsto> utf16 ''[1,'']"
      and key = "utf16 ''favorites''"]
    load_absent_or_malformed[where localStorage = "Map.empty" and key = "utf16 ''favorites''"]
  show ?thesis by simp
qed

section \<open>Subtotal\<close>

lemma number_of_int_representable:
  "representable (of_int q) \<Longrightarrow> number_of_int q = Finite (of_int q)"
  by (simp add: representable_def number_of_int_def)

lemma accumulate_exact:
  assumes "exact_steps s cart"
  shows "\<exists>t. exact_subtotal cart = Some t \<and>
           foldl (\<lambda>sum' item. js_add sum'
                    (js_mul (item_price item) (number_of_int (item_quantity item))))
             (Finite s) cart = Finite (s + t)"
  using assms
proof (induction cart arbitrary: s)
  case Nil
  then show ?case by simp
next
  case (Cons item cart)
  from Cons.prems obtain p where p: "item_price item = Finite p"
    and rq: "representable (of_int (item_quantity item))"
    and rp: "representable (p * of_int (item_quantity item))"
    and rs: "representable (s + p * of_int (item_quantity item))"
    and rest: "exact_steps (s + p * of_int (item_quantity item)) cart"
    by (auto split: js_number.splits)
  from p rq rp have product:
    "js_mul (item_price item) (number_of_int (item_quantity item))
       = Finite (p * of_int (item_quantity item))"
    by (simp add: number_of_int_representable) (simp add: representable_def)
  from rs have step:
    "js_add (Finite s) (Finite (p * of_int (item_quantity item)))
       = Finite (s + p * of_int (item_quantity item))"
    by (simp add: representable_def)
  from Cons.IH[OF rest] obtain t where t: "exact_subtotal cart = Some t"
    "foldl (\<lambda>sum' item. js_add sum'
              (js_mul (item_price item) (number_of_int (item_quantity item))))
       (Finite (s + p * of_int (item_quantity item))) cart
     = Finite (s + p * of_int (item_quantity item) + t)"
    by blast
  from p t product step show ?case by (simp add: add.assoc)
qed

lemma round_double_samples:
  "round_double (1 / 10) = Finite (3602879701896397 / 36028797018963968)"
  "round_double (2 / 10) = Finite (7205759403792794 / 36028797018963968)"
  "round_double (3 / 10) = Finite (10808639105689190 / 36028797018963968)"
  "round_double (- 5 / 2) = Finite (- 5 / 2)"
  "round_double (2 ^ 53 + 1) = Finite (2 ^ 53)"
  "round_double (2 ^ 53 + 3) = Finite (2 ^ 53 + 4)"
  by code_simp+

text \<open>The accumulation depends on the order of the entries: 0.1, 0.2, 0.3 against 0.3, 0.2, 0.1.\<close>

lemma js_add_order_dependent:
  "js_add (js_add (js_add (Finite 0) (round_double (1 / 10))) (round_double (2 / 10)))
          (round_double (3 / 10))
   \<noteq> js_add (js_add (js_add (Finite 0) (round_double (3 / 10))) (round_double (2 / 10)))
            (round_double (1 / 10))"
  by code_simp

text \<open>
  C6, as stated, at the cart with one entry of price 0.1 (the double nearest to it) and
  quantity 3: the exact sum of price times quantity is 10808639105689191 / 2^55, the
  subtotal the code computes is the double 0.30000000000000004, one unit of 2^-55 more.
\<close>

theorem total_rounds_counterexample:
  "exact_subtotal
     [\<lparr>item_id = utf16 ''p1'', item_name = utf16 ''Shoe'', item_price = round_double (1 / 10),
       item_image = utf16 ''img1'', item_quantity = 3, item_variant = None\<rparr>]
     = Some (10808639105689191 / 36028797018963968) \<and>
   total
     [\<lparr>item_id = utf16 ''p1'', item_name = utf16 ''Shoe'', item_price = round_double (1 / 10),
       item_image = utf16 ''img1'', item_quantity = 3, item_variant = None\<rparr>]
     = Finite (10808639105689192 / 36028797018963968) \<and>
   Some (total
     [\<lparr>item_id = utf16 ''p1'', item_name = utf16 ''Shoe'', item_price = round_double (1 / 10),
       item_image = utf16 ''img1'', item_quantity = 3, item_variant = None\<rparr>])
     \<noteq> map_option Finite (exact_subtotal
     [\<lparr>item_id = utf16 ''p1'', item_name = utf16 ''Shoe'', item_price = round_double (1 / 10),
       item_image = utf16 ''img1'', item_quantity = 3, item_variant = None\<rparr>])"
proof -
  have price: "round_double (1 / 10) = Finite (3602879701896397 / 36028797018963968)"
    by code_simp
  have three: "number_of_int 3 = Finite 3"
    unfolding number_of_int_def by code_simp
  have product: "round_double (10808639105689191 / 36028797018963968)
                 = Finite (10808639105689192 / 36028797018963968)"
    by code_simp
  have sum: "round_double (1351079888211149 / 4503599627370496)
             = Finite (1351079888211149 / 4503599627370496)"
    by code_simp
  show ?thesis
    by (simp add: total_def price three product sum)
qed

text \<open>
  C6 (amended): the subtotal is 0 for the empty cart and is accumulated entry by entry,
  left to right: the subtotal of a cart extended by one entry is the double sum of the
  subtotal so far and the double product of that entry's price and quantity. Whenever
  no step of this accumulation rounds (every quantity, product and partial sum is
  representable as a double), the subtotal is the exact sum over the entries of price
  times quantity.
\<close>

theorem total_accumulates:
  "total [] = Finite 0 \<and>
   total (cart @ [item])
     = js_add (total cart) (js_mul (item_price item) (number_of_int (item_quantity item))) \<and>
   (exact_steps 0 cart \<longrightarrow> Some (total cart) = map_option Finite (exact_subtotal cart))"
proof (intro conjI impI)
  show "total [] = Finite 0" by (simp add: total_def)
next
  show "total (cart @ [item])
     = js_add (total cart) (js_mul (item_price item) (number_of_int (item_quantity item)))"
    by (simp add: total_def)
next
  assume "exact_steps 0 cart"
  from accumulate_exact[OF this] show "Some (total cart) = map_option Finite (exact_subtotal cart)"
    by (auto simp: total_def)
qed

theorem total_accumulates_witness:
  "exact_steps 0
     [\<lparr>item_id = utf16 ''p1'', item_name = utf16 ''Shoe'', item_price = Finite 100,
       item_image = utf16 ''img1'', item_quantity = 2, item_variant = None\<rparr>,
      \<lparr>item_id = utf16 ''p2'', item_name = utf16 ''Hat'', item_price = Finite (59 / 2),
       item_image = utf16 ''img2'', item_quantity = 1, item_variant = None\<rparr>] \<and>
   exact_subtotal
     [\<lparr>item_id = utf16 ''p1'', item_name = utf16 ''Shoe'', item_price = Finite 100,
       item_image = utf16 ''img1'', item_quantity = 2, item_variant = None\<rparr>,
      \<lparr>item_id = utf16 ''p2'', item_name = utf16 ''Hat'', item_price = Finite (59 / 2),
       item_image = utf16 ''img2'', item_quantity = 1, item_variant = None\<rparr>]
     = Some (459 / 2) \<and>
   total
     [\<lparr>item_id = utf16 ''p1'', item_name = utf16 ''Shoe'', item_price = Finite 100,
       item_image = utf16 ''img1'', item_quantity = 2, item_variant = None\<rparr>,
      \<lparr>item_id = utf16 ''p2'', item_name = utf16 ''Hat'', item_price = Finite (59 / 2),
       item_image = utf16 ''img2'', item_quantity = 1, item_variant = None\<rparr>]
     = Finite (459 / 2)"
proof -
  have r: "representable 2" "representable 200" "representable 1" "representable (59 / 2)"
    "representable (459 / 2)"
    unfolding representable_def by code_simp+
  have steps: "exact_steps 0
     [\<lparr>item_id = utf16 ''p1'', item_name = utf16 ''Shoe'', item_price = Finite 100,
       item_image = utf16 ''img1'', item_quantity = 2, item_variant = None\<rparr>,
      \<lparr>item_id = utf16 ''p2'', item_name = utf16 ''Hat'', item_price = Finite (59 / 2),
       item_image = utf16 ''img2'', item_quantity = 1, item_variant = None\<rparr>]"
    by (simp add: r)
  from steps
    total_accumulates[where cart =
      "[\<lparr>item_id = utf16 ''p1'', item_name = utf16 ''Shoe'', item_price = Finite 100,
          item_image = utf16 ''img1'', item_quantity = 2, item_variant = None\<rparr>,
        \<lparr>item_id = utf16 ''p2'', item_name = utf16 ''Hat'', item_price = Finite (59 / 2),
          item_image = utf16 ''img2'', item_quantity = 1, item_variant = None\<rparr>]"]
  show ?thesis by simp
qed

end
